theory Spec2Isabelle
  imports Complex_Main
begin

section \<open>Budgeted prompt assembly: token estimation, history store, condenser, packer\<close>

text \<open>
  Python strings are modelled as \<^typ>\<open>string\<close>: a character is a code point below 256, and
  \<^term>\<open>length\<close> is Python's \<open>len\<close>. Whitespace is given for all of these code points, case
  mapping for the ASCII letters. Python integers are \<^typ>\<open>int\<close>. Logging is the only effect
  of the modelled methods besides the state they update; log calls are left out.
\<close>

subsection \<open>Python string and slice primitives\<close>

definition NL :: string where
  "NL = [CHR 0x0A]"

text \<open>\<open>s[:n]\<close>: a negative bound counts from the end, and no bound is out of range.\<close>

definition py_slice_to :: "'a list \<Rightarrow> int \<Rightarrow> 'a list" where
  "py_slice_to s n = (if n < 0 then take (nat (int (length s) + n)) s else take (nat n) s)"

text \<open>\<open>sep.join(xs)\<close>.\<close>

fun join :: "string \<Rightarrow> string list \<Rightarrow> string" where
  "join sep [] = []"
| "join sep [x] = x"
| "join sep (x # y # ys) = x @ sep @ join sep (y # ys)"

text \<open>\<open>str.isspace\<close> below 256: tab, line feed, vertical tab, form feed, carriage return,
  the four separators 0x1C to 0x1F, the space, next line (0x85) and no-break space (0xA0).\<close>

definition isspace :: "char \<Rightarrow> bool" where
  "isspace c =
     (let n = (of_char c :: nat)
      in (9 \<le> n \<and> n \<le> 13) \<or> (28 \<le> n \<and> n \<le> 32) \<or> n = 133 \<or> n = 160)"

definition strip :: "string \<Rightarrow> string" where
  "strip s = rev (dropWhile isspace (rev (dropWhile isspace s)))"

definition upper_char :: "char \<Rightarrow> char" where
  "upper_char c = (let n = (of_char c :: nat) in if 97 \<le> n \<and> n \<le> 122 then char_of (n - 32) else c)"

definition lower_char :: "char \<Rightarrow> char" where
  "lower_char c = (let n = (of_char c :: nat) in if 65 \<le> n \<and> n \<le> 90 then char_of (n + 32) else c)"

text \<open>\<open>str.capitalize\<close>: first character upper case, the others lower case.\<close>

fun capitalize :: "string \<Rightarrow> string" where
  "capitalize [] = []"
| "capitalize (c # cs) = upper_char c # map lower_char cs"

subsection \<open>TokenOptimizer (token\_optimizer\_module.py)\<close>

text \<open>\<open>TokenOptimizer.estimate_token_count\<close>; the tokenizer model name is only logged.\<close>

definition estimate_token_count :: "string \<Rightarrow> int" where
  "estimate_token_count text = (if text = [] then 0 else (int (length text) + 3) div 4)"

subsection \<open>ContextManager (context\_manager\_module.py)\<close>

record message =
  role :: string
  content :: string
  tokens :: int

record context_manager =
  max_tokens :: int
  context_history :: "message list"
  current_total_tokens :: int

text \<open>\<open>ContextManager.__init__\<close>.\<close>

definition context_manager_init :: "int \<Rightarrow> context_manager" where
  "context_manager_init mt = \<lparr>max_tokens = mt, context_history = [], current_total_tokens = 0\<rparr>"

text \<open>\<open>ContextManager._estimate_tokens\<close>.\<close>

definition cm_estimate_tokens :: "string \<Rightarrow> int" where
  "cm_estimate_tokens text = (if text = [] then 0 else (int (length text) + 3) div 4)"

text \<open>The \<open>while\<close> loop of \<open>prune_context_if_needed\<close>: \<open>pop(0)\<close>, subtract, set the flag.\<close>

function prune_loop :: "int \<Rightarrow> bool \<Rightarrow> context_manager \<Rightarrow> bool \<times> context_manager" where
  "prune_loop additional pruned s =
     (if current_total_tokens s + additional > max_tokens s \<and> context_history s \<noteq> []
      then prune_loop additional True
             (s\<lparr>context_history := tl (context_history s),
                current_total_tokens := current_total_tokens s - tokens (hd (context_history s))\<rparr>)
      else (pruned, s))"
  by pat_completeness auto
termination
  by (relation "measure (\<lambda>(additional, pruned, s). length (context_history s))") auto

definition prune_context_if_needed :: "context_manager \<Rightarrow> int \<Rightarrow> bool \<times> context_manager" where
  "prune_context_if_needed s additional_tokens_to_add = prune_loop additional_tokens_to_add False s"

definition add_message :: "string \<Rightarrow> string \<Rightarrow> context_manager \<Rightarrow> context_manager" where
  "add_message r c s =
     (let message_tokens = cm_estimate_tokens c;
          s1 = snd (prune_context_if_needed s message_tokens)
      in if current_total_tokens s1 + message_tokens \<le> max_tokens s1
         then s1\<lparr>context_history := context_history s1 @ [\<lparr>role = r, content = c, tokens = message_tokens\<rparr>],
                 current_total_tokens := current_total_tokens s1 + message_tokens\<rparr>
         else s1)"

definition get_current_token_count :: "context_manager \<Rightarrow> int" where
  "get_current_token_count s = current_total_tokens s"

text \<open>A sequence of \<open>add_message\<close> calls on a freshly constructed manager.\<close>

definition add_messages :: "int \<Rightarrow> (string \<times> string) list \<Rightarrow> context_manager" where
  "add_messages mt calls = foldl (\<lambda>s (r, c). add_message r c s) (context_manager_init mt) calls"

subsection \<open>Values handed to the condenser and to the prompt constructor\<close>

text \<open>A value stored in a dict: a \<open>str\<close>, or another object, of which only its rendering
  by \<open>str\<close> is observed and on which \<open>.capitalize\<close> raises.\<close>

datatype pyval = Str string | NonStr string

fun str_of :: "pyval \<Rightarrow> string" where
  "str_of (Str s) = s"
| "str_of (NonStr shown) = shown"

text \<open>
  A list element is a dict (its entries, together with Python's rendering of the whole dict,
  which \<open>map(str, ...)\<close> uses) or anything else, of which only its \<open>str\<close> is observed and on
  which \<open>.get\<close> raises.
\<close>

datatype item = Dict "string \<rightharpoonup> pyval" string | Atom string

fun py_str :: "item \<Rightarrow> string" where
  "py_str (Dict d shown) = shown"
| "py_str (Atom a) = a"

text \<open>A component or source datum: a string, a list, or another object given by its
  truth value and its \<open>str\<close>.\<close>

datatype component = Text string | Items "item list" | Other bool string

fun truthy :: "component \<Rightarrow> bool" where
  "truthy (Text t) = (t \<noteq> [])"
| "truthy (Items xs) = (xs \<noteq> [])"
| "truthy (Other b shown) = b"

datatype error = AttributeError

text \<open>An injected \<open>tokenizer_func\<close>: absent, or a function that returns a count or raises
  (\<open>None\<close>).\<close>

type_synonym tokenizer = "(string \<Rightarrow> int option) option"

subsection \<open>ContextualMemoryCondenserAI (contextual\_memory\_condenser\_ai.py)\<close>

text \<open>\<open>ContextualMemoryCondenserAI._estimate_tokens\<close>.\<close>

definition cmc_estimate_tokens :: "tokenizer \<Rightarrow> string \<Rightarrow> int" where
  "cmc_estimate_tokens tokenizer_func text =
     (case tokenizer_func of
        Some f \<Rightarrow> (case f text of Some n \<Rightarrow> n | None \<Rightarrow> int (length text) div 4)
      | None \<Rightarrow> int (length text) div 4)"

fun has_content :: "item \<Rightarrow> bool" where
  "has_content (Dict d shown) = (d ''content'' \<noteq> None)"
| "has_content (Atom a) = False"

fun role_content_line :: "item \<Rightarrow> string" where
  "role_content_line (Dict d shown) =
     (case d ''role'' of None \<Rightarrow> ''N/A'' | Some r \<Rightarrow> str_of r) @ '': '' @
     (case d ''content'' of None \<Rightarrow> [] | Some c \<Rightarrow> str_of c)"
| "role_content_line (Atom a) = a"

definition raw_text_representation :: "component \<Rightarrow> string" where
  "raw_text_representation data =
     (case data of
        Text t \<Rightarrow> t
      | Items xs \<Rightarrow> if list_all has_content xs then join NL (map role_content_line xs)
                    else join NL (map py_str xs)
      | Other b shown \<Rightarrow> shown)"

text \<open>
  \<open>int(target * 3.5)\<close> truncates towards zero, and \<open>est > target * 1.2\<close> compares an integer
  with a float. Both are written over the integers; they agree with the floating-point
  results as long as the target is below \<open>2^50\<close> in absolute value. Beyond that the float
  product is rounded, and a target too large for a float raises \<open>OverflowError\<close>; such targets
  are outside this model.
\<close>

definition int_times_3_5 :: "int \<Rightarrow> int" where
  "int_times_3_5 t = (if 0 \<le> t then (7 * t) div 2 else - ((7 * (- t)) div 2))"

definition exceeds_1_2 :: "int \<Rightarrow> int \<Rightarrow> bool" where
  "exceeds_1_2 est t = (5 * est > 6 * t)"

text \<open>\<open>condense_information\<close>; \<open>llm_interface\<close> is whether an interface is configured (it is
  never called), \<open>information_type\<close> is only logged.\<close>

definition condense_information ::
  "bool \<Rightarrow> tokenizer \<Rightarrow> string \<Rightarrow> component \<Rightarrow> int \<Rightarrow> string option \<Rightarrow> string \<Rightarrow> string" where
  "condense_information llm_interface tokenizer_func information_type data target_token_count
       relevance_query strategy =
     (if \<not> truthy data then []
      else
        let raw = raw_text_representation data;
            current_tokens = cmc_estimate_tokens tokenizer_func raw
        in if current_tokens \<le> target_token_count then raw
           else
             let condensed_text =
                   (if strategy = ''truncate_or_summarize_placeholder'' then
                      (if llm_interface \<and> relevance_query \<noteq> None \<and> relevance_query \<noteq> Some [] then
                         py_slice_to raw (3 * target_token_count)
                       else py_slice_to raw (int_times_3_5 target_token_count))
                    else py_slice_to raw (int_times_3_5 target_token_count));
                 final_estimated_tokens = cmc_estimate_tokens tokenizer_func condensed_text;
                 condensed_text =
                   (if exceeds_1_2 final_estimated_tokens target_token_count
                    then py_slice_to condensed_text (3 * target_token_count)
                    else condensed_text)
             in strip condensed_text)"

subsection \<open>DynamicPromptConstructor (dynamic\_prompt\_constructor.py)\<close>

text \<open>\<open>DynamicPromptConstructor._estimate_tokens\<close>.\<close>

definition dpc_estimate_tokens :: "tokenizer \<Rightarrow> string \<Rightarrow> int" where
  "dpc_estimate_tokens tokenizer_func text =
     (case tokenizer_func of
        Some f \<Rightarrow> (case f text of Some n \<Rightarrow> n | None \<Rightarrow> int (length text) div 4)
      | None \<Rightarrow> int (length text) div 4)"

text \<open>The rendering of one history turn, with its trailing newline; \<open>.capitalize()\<close> on a
  role that is not a \<open>str\<close> raises.\<close>

definition turn_str :: "(string \<rightharpoonup> pyval) \<Rightarrow> error + string" where
  "turn_str d =
     (case (case d ''role'' of None \<Rightarrow> Str ''unknown'' | Some r \<Rightarrow> r) of
        NonStr shown \<Rightarrow> Inl AttributeError
      | Str r \<Rightarrow>
          Inr (capitalize r @ '': '' @ (case d ''content'' of None \<Rightarrow> [] | Some c \<Rightarrow> str_of c) @ NL))"

text \<open>
  The inner loop over \<open>reversed(component_content)\<close>: a turn is prepended while the committed
  tokens plus the estimate of the joined buffer followed by the turn stay within the budget;
  the first turn that does not fit ends the loop. The unused \<open>turn_tokens\<close> is left out.
\<close>

fun history_loop :: "tokenizer \<Rightarrow> int \<Rightarrow> int \<Rightarrow> item list \<Rightarrow> string list \<Rightarrow> error + string list" where
  "history_loop tf cur mt [] history_buffer = Inr history_buffer"
| "history_loop tf cur mt (Atom a # turns) history_buffer = Inl AttributeError"
| "history_loop tf cur mt (Dict d shown # turns) history_buffer =
     (case turn_str d of
        Inl e \<Rightarrow> Inl e
      | Inr turn \<Rightarrow>
          if cur + dpc_estimate_tokens tf (join NL history_buffer @ turn) \<le> mt
          then history_loop tf cur mt turns (turn # history_buffer)
          else Inr history_buffer)"

definition temp_prompt_str :: "tokenizer \<Rightarrow> int \<Rightarrow> int \<Rightarrow> string \<Rightarrow> component \<Rightarrow> error + string" where
  "temp_prompt_str tf cur mt key component_content =
     (case component_content of
        Items xs \<Rightarrow>
          if key = ''history'' then
            (case history_loop tf cur mt (rev xs) [] of
               Inl e \<Rightarrow> Inl e
             | Inr history_buffer \<Rightarrow> Inr (join NL history_buffer))
          else Inr (join NL (map py_str xs))
      | Text t \<Rightarrow> Inr t
      | Other b shown \<Rightarrow> Inr shown)"

definition format_component :: "string \<Rightarrow> string \<Rightarrow> string" where
  "format_component key t =
     (if key = ''system_message'' then t
      else if key = ''user_query'' then ''User: '' @ t
      else if key = ''task_instructions'' then ''Instructions: '' @ t
      else if key = ''retrieved_knowledge'' then ''Context: '' @ t
      else t)"

text \<open>The loop state; \<open>processed_components\<close> is written and never read, and is left out.\<close>

record pstate =
  final_prompt_elements :: "string list"
  current_tokens :: int

text \<open>How one pass through the loop body ends: the loop goes on, or \<open>break\<close>.\<close>

datatype flow = Continue pstate | Break pstate

fun flow_state :: "flow \<Rightarrow> pstate" where
  "flow_state (Continue st) = st"
| "flow_state (Break st) = st"

definition process_key ::
  "tokenizer \<Rightarrow> (string \<rightharpoonup> component) \<Rightarrow> int \<Rightarrow> string \<Rightarrow> pstate \<Rightarrow> error + flow" where
  "process_key tf components mt key st =
     (case components key of
        None \<Rightarrow> Inr (Continue st)
      | Some component_content \<Rightarrow>
          if \<not> truthy component_content then Inr (Continue st)
          else
            (case temp_prompt_str tf (current_tokens st) mt key component_content of
               Inl e \<Rightarrow> Inl e
             | Inr t \<Rightarrow>
                 let formatted_component_str = format_component key t;
                     component_tokens = dpc_estimate_tokens tf (formatted_component_str @ NL)
                 in if current_tokens st + component_tokens \<le> mt then
                      Inr (Continue
                        \<lparr>final_prompt_elements = final_prompt_elements st @ [formatted_component_str],
                         current_tokens = current_tokens st + component_tokens\<rparr>)
                    else if final_prompt_elements st = [] \<and>
                            (key = ''user_query'' \<or> key = ''system_message'') then
                      (let available_chars_approx = (mt - current_tokens st) * 3;
                           truncated_content = py_slice_to formatted_component_str available_chars_approx
                       in Inr (Break
                            \<lparr>final_prompt_elements = final_prompt_elements st @ [truncated_content],
                             current_tokens = current_tokens st
                               + dpc_estimate_tokens tf (truncated_content @ NL)\<rparr>))
                    else Inr (Break st)))"

fun process_keys ::
  "tokenizer \<Rightarrow> (string \<rightharpoonup> component) \<Rightarrow> int \<Rightarrow> string list \<Rightarrow> pstate \<Rightarrow> error + flow" where
  "process_keys tf components mt [] st = Inr (Continue st)"
| "process_keys tf components mt (key # keys) st =
     (case process_key tf components mt key st of
        Inl e \<Rightarrow> Inl e
      | Inr (Break st') \<Rightarrow> Inr (Break st')
      | Inr (Continue st') \<Rightarrow> process_keys tf components mt keys st')"

definition default_priority_order :: "string list" where
  "default_priority_order =
     [''user_query'', ''system_message'', ''task_instructions'', ''history'', ''retrieved_knowledge'']"

definition initial_pstate :: pstate where
  "initial_pstate = \<lparr>final_prompt_elements = [], current_tokens = 0\<rparr>"

text \<open>The part of \<open>build_and_optimize_prompt\<close> after the loop: join, strip, re-estimate, and
  the fallback, which cuts by characters only when no tokenizer is injected.\<close>

definition finalize_prompt :: "tokenizer \<Rightarrow> int \<Rightarrow> string list \<Rightarrow> string" where
  "finalize_prompt tf mt elements =
     (let final_prompt = strip (join (NL @ NL) elements);
          final_tokens_estimate = dpc_estimate_tokens tf final_prompt
      in if final_tokens_estimate > mt then
           (if tf = None then
              (let chars_to_keep = mt * 3
               in if int (length final_prompt) > chars_to_keep
                  then py_slice_to final_prompt chars_to_keep else final_prompt)
            else final_prompt)
         else final_prompt)"

definition build_and_optimize_prompt ::
  "tokenizer \<Rightarrow> (string \<rightharpoonup> component) \<Rightarrow> int \<Rightarrow> string list option \<Rightarrow> error + string" where
  "build_and_optimize_prompt tf components mt priority_order =
     (case process_keys tf components mt
             (case priority_order of None \<Rightarrow> default_priority_order | Some po \<Rightarrow> po)
             initial_pstate of
        Inl e \<Rightarrow> Inl e
      | Inr fl \<Rightarrow> Inr (finalize_prompt tf mt (final_prompt_elements (flow_state fl))))"

subsection \<open>Example inputs\<close>

text \<open>
  The store of the module's own example: \<open>Hello\<close>, \<open>World\<close> and \<open>This is a test\<close> under a
  ceiling of 10, with 3 more tokens to add. Exactly one message goes, and it is \<open>Hello\<close>.
\<close>

definition example_store :: context_manager where
  "example_store =
     \<lparr>max_tokens = 10,
      context_history =
        [\<lparr>role = ''user'', content = ''Hello'', tokens = 2\<rparr>,
         \<lparr>role = ''assistant'', content = ''World'', tokens = 2\<rparr>,
         \<lparr>role = ''user'', content = ''This is a test'', tokens = 4\<rparr>],
      current_total_tokens = 8\<rparr>"

text \<open>The oversized message of the module's own example (76 characters, 19 tokens).\<close>

definition oversized_content :: string where
  "oversized_content = ''This single message is far too long for the tiny context limit of ten tokens''"

text \<open>
  The word-counting tokenizer of the modules' own examples (\<open>simple_test_tokenizer\<close>,
  \<open>simple_word_tokenizer\<close>): \<open>len(text.split())\<close>, the number of maximal runs of
  non-whitespace characters.
\<close>

fun count_words :: "bool \<Rightarrow> string \<Rightarrow> nat" where
  "count_words in_word [] = 0"
| "count_words in_word (c # cs) =
     (if isspace c then count_words False cs
      else (if in_word then 0 else 1) + count_words True cs)"

definition simple_test_tokenizer :: "string \<Rightarrow> int option" where
  "simple_test_tokenizer text = Some (int (count_words False text))"

text \<open>Three generic two-character components: each costs 0 tokens with its separator,
  joined they cost 2.\<close>

definition three_short :: "string \<rightharpoonup> component" where
  "three_short = [''a'' \<mapsto> Text ''xy'', ''b'' \<mapsto> Text ''zw'', ''c'' \<mapsto> Text ''uv'']"





section \<open>Properties\<close>

subsection \<open>Fallback token estimators\<close>

lemma ceiling_quarter: "\<lceil>real n / 4\<rceil> = (int n + 3) div 4"
  by linarith

lemma floor_quarter: "\<lfloor>real n / 4\<rfloor> = int n div 4"
  by linarith

text \<open>
  C5, as the code has it. \<open>TokenOptimizer.estimate_token_count\<close> and
  \<open>ContextManager._estimate_tokens\<close> return the ceiling of \<open>len(text)/4\<close>; the fallback of
  \<open>DynamicPromptConstructor._estimate_tokens\<close> (no tokenizer injected) computes
  \<open>len(text) // 4\<close>, the floor. All three return 0 on the empty string.
\<close>

theorem fallback_estimators:
  "estimate_token_count text = \<lceil>real (length text) / 4\<rceil>
   \<and> cm_estimate_tokens text = \<lceil>real (length text) / 4\<rceil>
   \<and> dpc_estimate_tokens None text = \<lfloor>real (length text) / 4\<rfloor>
   \<and> estimate_token_count [] = 0 \<and> cm_estimate_tokens [] = 0 \<and> dpc_estimate_tokens None [] = 0"
  by (simp add: estimate_token_count_def cm_estimate_tokens_def dpc_estimate_tokens_def
        ceiling_quarter floor_quarter)

text \<open>
  C5 as stated fails: on the three-character string \<open>abc\<close> the prompt constructor's fallback
  returns 0, while the ceiling of 3/4 is 1.
\<close>

theorem dpc_fallback_not_ceiling:
  "dpc_estimate_tokens None ''abc'' \<noteq> \<lceil>real (length ''abc'') / 4\<rceil>"
  by (simp add: dpc_estimate_tokens_def ceiling_quarter)

subsection \<open>The history store\<close>

declare prune_loop.simps [simp del]

lemma prune_loop_stop:
  assumes "\<not> (current_total_tokens s + a > max_tokens s \<and> context_history s \<noteq> [])"
  shows "prune_loop a p s = (p, s)"
  by (subst prune_loop.simps) (simp only: assms if_False)

lemma prune_loop_step:
  assumes "current_total_tokens s + a > max_tokens s" and "context_history s = m # ms"
  shows "prune_loop a p s =
         prune_loop a True (s\<lparr>context_history := ms, current_total_tokens := current_total_tokens s - tokens m\<rparr>)"
  by (subst prune_loop.simps) (simp add: assms)

text \<open>The loop removes a prefix of the history: \<open>n\<close> messages, oldest first, the loop test
  holding before each removal and failing at the end.\<close>

lemma prune_loop_spec:
  "\<exists>n\<le>length (context_history s).
      snd (prune_loop a p s) = s\<lparr>context_history := drop n (context_history s),
           current_total_tokens := current_total_tokens s - sum_list (map tokens (take n (context_history s)))\<rparr>
    \<and> fst (prune_loop a p s) = (p \<or> 0 < n)
    \<and> (\<forall>k<n. current_total_tokens s - sum_list (map tokens (take k (context_history s))) + a > max_tokens s)
    \<and> \<not> (current_total_tokens s - sum_list (map tokens (take n (context_history s))) + a > max_tokens s
          \<and> drop n (context_history s) \<noteq> [])"
proof (induction a p s rule: prune_loop.induct)
  case (1 a p s)
  show ?case
  proof (cases "current_total_tokens s + a > max_tokens s \<and> context_history s \<noteq> []")
    case False
    then have eq: "prune_loop a p s = (p, s)" by (rule prune_loop_stop)
    show ?thesis
    proof (intro exI[of _ 0] conjI)
      show "\<not> (current_total_tokens s - sum_list (map tokens (take 0 (context_history s))) + a > max_tokens s
               \<and> drop 0 (context_history s) \<noteq> [])"
        using False by simp
    qed (simp_all add: eq)
  next
    case True
    let ?s' = "s\<lparr>context_history := tl (context_history s),
                current_total_tokens := current_total_tokens s - tokens (hd (context_history s))\<rparr>"
    from True obtain m ms where h: "context_history s = m # ms"
      by (cases "context_history s") auto
    from 1[OF True] obtain n where n: "n \<le> length (context_history ?s')"
      "snd (prune_loop a True ?s') = ?s'\<lparr>context_history := drop n (context_history ?s'),
           current_total_tokens := current_total_tokens ?s' - sum_list (map tokens (take n (context_history ?s')))\<rparr>"
      "fst (prune_loop a True ?s') = (True \<or> 0 < n)"
      "\<forall>k<n. current_total_tokens ?s' - sum_list (map tokens (take k (context_history ?s'))) + a > max_tokens ?s'"
      "\<not> (current_total_tokens ?s' - sum_list (map tokens (take n (context_history ?s'))) + a > max_tokens ?s'
          \<and> drop n (context_history ?s') \<noteq> [])"
      by blast
    have eq: "prune_loop a p s = prune_loop a True ?s'"
      using True h by (simp add: prune_loop_step)
    have before: "\<forall>k<Suc n. current_total_tokens s - sum_list (map tokens (take k (context_history s))) + a > max_tokens s"
    proof (intro allI impI)
      fix k assume "k < Suc n"
      show "current_total_tokens s - sum_list (map tokens (take k (context_history s))) + a > max_tokens s"
      proof (cases k)
        case 0
        with True show ?thesis by simp
      next
        case (Suc j)
        with \<open>k < Suc n\<close> have "j < n" by simp
        with n(4) have "current_total_tokens ?s' - sum_list (map tokens (take j (context_history ?s'))) + a > max_tokens ?s'"
          by blast
        with Suc h show ?thesis by simp
      qed
    qed
    show ?thesis
    proof (intro exI[of _ "Suc n"] conjI)
      show "Suc n \<le> length (context_history s)" using n(1) h by simp
      show "snd (prune_loop a p s) = s\<lparr>context_history := drop (Suc n) (context_history s),
           current_total_tokens := current_total_tokens s - sum_list (map tokens (take (Suc n) (context_history s)))\<rparr>"
        unfolding eq n(2) using h by simp
      show "fst (prune_loop a p s) = (p \<or> 0 < Suc n)" unfolding eq n(3) by simp
      show "\<forall>k<Suc n. current_total_tokens s - sum_list (map tokens (take k (context_history s))) + a > max_tokens s"
        by (rule before)
      show "\<not> (current_total_tokens s - sum_list (map tokens (take (Suc n) (context_history s))) + a > max_tokens s
               \<and> drop (Suc n) (context_history s) \<noteq> [])"
        using n(5) h by (simp add: algebra_simps)
    qed
  qed
qed

lemma prune_context_spec:
  "\<exists>n\<le>length (context_history s).
      prune_context_if_needed s a = (0 < n, s\<lparr>context_history := drop n (context_history s),
           current_total_tokens := current_total_tokens s - sum_list (map tokens (take n (context_history s)))\<rparr>)
    \<and> (\<forall>k<n. current_total_tokens s - sum_list (map tokens (take k (context_history s))) + a > max_tokens s)
    \<and> \<not> (current_total_tokens s - sum_list (map tokens (take n (context_history s))) + a > max_tokens s
          \<and> drop n (context_history s) \<noteq> [])"
proof -
  from prune_loop_spec[of s a False] obtain n where n: "n\<le>length (context_history s)"
     "snd (prune_loop a False s) = s\<lparr>context_history := drop n (context_history s),
           current_total_tokens := current_total_tokens s - sum_list (map tokens (take n (context_history s)))\<rparr>"
     "fst (prune_loop a False s) = (False \<or> 0 < n)"
     "(\<forall>k<n. current_total_tokens s - sum_list (map tokens (take k (context_history s))) + a > max_tokens s)"
     "\<not> (current_total_tokens s - sum_list (map tokens (take n (context_history s))) + a > max_tokens s
         \<and> drop n (context_history s) \<noteq> [])"
    by blast
  have "prune_context_if_needed s a = (fst (prune_loop a False s), snd (prune_loop a False s))"
    by (simp add: prune_context_if_needed_def)
  then have "prune_context_if_needed s a = (0 < n, s\<lparr>context_history := drop n (context_history s),
           current_total_tokens := current_total_tokens s - sum_list (map tokens (take n (context_history s)))\<rparr>)"
    by (simp only: n(2,3) simp_thms)
  with n(1,4,5) show ?thesis by blast
qed

text \<open>
  C10. \<open>prune_context_if_needed\<close> returns for every store and every
  \<open>additional_tokens_to_add\<close>: the loop is a total function, each pass dropping the head of
  the finite history. The store it leaves holds the history without its first \<open>n\<close> messages
  for some \<open>n\<close> up to the history's length, and the flag returned is \<open>True\<close> exactly when at
  least one message was removed.
\<close>

theorem prune_context_if_needed_returns:
  "\<exists>pruned s' n. prune_context_if_needed s a = (pruned, s')
     \<and> n \<le> length (context_history s)
     \<and> context_history s' = drop n (context_history s)
     \<and> pruned = (length (context_history s') < length (context_history s))"
proof -
  from prune_context_spec[of s a] obtain n where n: "n \<le> length (context_history s)"
    "prune_context_if_needed s a = (0 < n, s\<lparr>context_history := drop n (context_history s),
           current_total_tokens := current_total_tokens s - sum_list (map tokens (take n (context_history s)))\<rparr>)"
    by blast
  show ?thesis
  proof (intro exI conjI)
    show "prune_context_if_needed s a = (0 < n, s\<lparr>context_history := drop n (context_history s),
           current_total_tokens := current_total_tokens s - sum_list (map tokens (take n (context_history s)))\<rparr>)"
      by (rule n(2))
    show "n \<le> length (context_history s)" by (rule n(1))
    show "context_history (s\<lparr>context_history := drop n (context_history s),
           current_total_tokens := current_total_tokens s - sum_list (map tokens (take n (context_history s)))\<rparr>)
          = drop n (context_history s)" by simp
    show "(0 < n) = (length (context_history (s\<lparr>context_history := drop n (context_history s),
           current_total_tokens := current_total_tokens s - sum_list (map tokens (take n (context_history s)))\<rparr>))
          < length (context_history s))"
      using n(1) by auto
  qed
qed

text \<open>
  C6. Eviction is first-in first-out. The store left by \<open>prune_context_if_needed\<close> is the
  given one with its \<open>n\<close> oldest messages removed and their costs subtracted from the running
  total; before each of the \<open>n\<close> removals the total so far plus the additional tokens exceeded
  \<open>max_tokens\<close>, and at the end the total plus the additional tokens is within \<open>max_tokens\<close> or
  the history is empty. Hence when exactly one message is evicted it is the oldest one.
\<close>

theorem eviction_is_fifo:
  "\<exists>n\<le>length (context_history s).
      snd (prune_context_if_needed s a) =
        s\<lparr>context_history := drop n (context_history s),
          current_total_tokens := current_total_tokens s - sum_list (map tokens (take n (context_history s)))\<rparr>
    \<and> (\<forall>k<n. current_total_tokens s - sum_list (map tokens (take k (context_history s))) + a > max_tokens s)
    \<and> \<not> (current_total_tokens (snd (prune_context_if_needed s a)) + a > max_tokens s
          \<and> context_history (snd (prune_context_if_needed s a)) \<noteq> [])
    \<and> (length (context_history (snd (prune_context_if_needed s a))) + 1 = length (context_history s) \<longrightarrow>
          context_history (snd (prune_context_if_needed s a)) = tl (context_history s)
        \<and> current_total_tokens (snd (prune_context_if_needed s a))
            = current_total_tokens s - tokens (hd (context_history s)))"
proof -
  from prune_context_spec[of s a] obtain n where n: "n \<le> length (context_history s)"
    "prune_context_if_needed s a = (0 < n, s\<lparr>context_history := drop n (context_history s),
           current_total_tokens := current_total_tokens s - sum_list (map tokens (take n (context_history s)))\<rparr>)"
    "\<forall>k<n. current_total_tokens s - sum_list (map tokens (take k (context_history s))) + a > max_tokens s"
    "\<not> (current_total_tokens s - sum_list (map tokens (take n (context_history s))) + a > max_tokens s
        \<and> drop n (context_history s) \<noteq> [])"
    by blast
  have one: "context_history (snd (prune_context_if_needed s a)) = tl (context_history s)
        \<and> current_total_tokens (snd (prune_context_if_needed s a))
            = current_total_tokens s - tokens (hd (context_history s))"
    if len: "length (context_history (snd (prune_context_if_needed s a))) + 1 = length (context_history s)"
  proof -
    from len n(1) have "n = 1" by (simp add: n(2))
    moreover from len obtain m ms where "context_history s = m # ms"
      by (cases "context_history s") auto
    ultimately show ?thesis by (simp add: n(2))
  qed
  show ?thesis
  proof (intro exI[of _ n] conjI impI)
    show "n \<le> length (context_history s)" by (rule n(1))
    show "snd (prune_context_if_needed s a) =
        s\<lparr>context_history := drop n (context_history s),
          current_total_tokens := current_total_tokens s - sum_list (map tokens (take n (context_history s)))\<rparr>"
      by (simp add: n(2))
    show "\<forall>k<n. current_total_tokens s - sum_list (map tokens (take k (context_history s))) + a > max_tokens s"
      by (rule n(3))
    show "\<not> (current_total_tokens (snd (prune_context_if_needed s a)) + a > max_tokens s
          \<and> context_history (snd (prune_context_if_needed s a)) \<noteq> [])"
      using n(4) by (simp add: n(2))
  qed (use one in simp_all)
qed

lemma example_store_pruned:
  "prune_context_if_needed example_store 3 =
     (True, \<lparr>max_tokens = 10,
            context_history =
              [\<lparr>role = ''assistant'', content = ''World'', tokens = 2\<rparr>,
               \<lparr>role = ''user'', content = ''This is a test'', tokens = 4\<rparr>],
            current_total_tokens = 6\<rparr>)"
  by (simp add: prune_context_if_needed_def example_store_def prune_loop.simps)

theorem eviction_is_fifo_witness:
  "length (context_history (snd (prune_context_if_needed example_store 3))) + 1
     = length (context_history example_store)
   \<and> context_history (snd (prune_context_if_needed example_store 3)) =
       [\<lparr>role = ''assistant'', content = ''World'', tokens = 2\<rparr>,
        \<lparr>role = ''user'', content = ''This is a test'', tokens = 4\<rparr>]
   \<and> current_total_tokens (snd (prune_context_if_needed example_store 3)) = 6"
proof -
  have len: "length (context_history (snd (prune_context_if_needed example_store 3))) + 1
     = length (context_history example_store)"
    by (simp add: example_store_pruned) (simp add: example_store_def)
  from eviction_is_fifo[of example_store 3] len
  have "context_history (snd (prune_context_if_needed example_store 3)) = tl (context_history example_store)
        \<and> current_total_tokens (snd (prune_context_if_needed example_store 3))
            = current_total_tokens example_store - tokens (hd (context_history example_store))"
    by blast
  with len show ?thesis by (simp add: example_store_def)
qed

lemma sum_take_drop:
  "sum_list (map tokens h) - sum_list (map tokens (take n h)) = sum_list (map tokens (drop n h))"
proof -
  have "sum_list (map tokens (take n h @ drop n h))
        = sum_list (map tokens (take n h)) + sum_list (map tokens (drop n h))"
    by (simp only: map_append sum_list_append)
  then show ?thesis by simp
qed

text \<open>One call keeps the ceiling and the running total's meaning; with a non-negative
  ceiling it leaves the total within it.\<close>

lemma add_message_inv:
  assumes "current_total_tokens s = sum_list (map tokens (context_history s))"
  shows "max_tokens (add_message r c s) = max_tokens s
       \<and> current_total_tokens (add_message r c s) = sum_list (map tokens (context_history (add_message r c s)))
       \<and> (0 \<le> max_tokens s \<longrightarrow> current_total_tokens (add_message r c s) \<le> max_tokens s)"
proof -
  let ?a = "cm_estimate_tokens c"
  from prune_context_spec[of s ?a] obtain n where
    p: "prune_context_if_needed s ?a = (0 < n, s\<lparr>context_history := drop n (context_history s),
           current_total_tokens := current_total_tokens s - sum_list (map tokens (take n (context_history s)))\<rparr>)"
    and stop: "\<not> (current_total_tokens s - sum_list (map tokens (take n (context_history s))) + ?a > max_tokens s
                  \<and> drop n (context_history s) \<noteq> [])"
    by blast
  have cur: "current_total_tokens s - sum_list (map tokens (take n (context_history s)))
             = sum_list (map tokens (drop n (context_history s)))"
    using assms sum_take_drop by simp
  show ?thesis
  proof (cases "sum_list (map tokens (drop n (context_history s))) + ?a \<le> max_tokens s")
    case True
    then show ?thesis using cur by (simp add: add_message_def p Let_def)
  next
    case False
    with stop cur have "drop n (context_history s) = []" by auto
    then show ?thesis using False cur by (simp add: add_message_def p Let_def)
  qed
qed

lemma add_messages_snoc:
  "add_messages mt (calls @ [(r, c)]) = add_message r c (add_messages mt calls)"
  by (simp add: add_messages_def)

lemma add_messages_inv:
  "max_tokens (add_messages mt calls) = mt
   \<and> current_total_tokens (add_messages mt calls)
       = sum_list (map tokens (context_history (add_messages mt calls)))
   \<and> (0 \<le> mt \<longrightarrow> current_total_tokens (add_messages mt calls) \<le> mt)"
proof (induction calls rule: rev_induct)
  case Nil
  show ?case by (simp add: add_messages_def context_manager_init_def)
next
  case (snoc x calls)
  obtain r c where x: "x = (r, c)" by (cases x)
  from snoc have b: "current_total_tokens (add_messages mt calls)
                     = sum_list (map tokens (context_history (add_messages mt calls)))"
    and c: "max_tokens (add_messages mt calls) = mt"
    by simp_all
  show ?case unfolding x add_messages_snoc using add_message_inv[OF b, of r c] c by auto
qed

lemma add_message_reject:
  assumes "context_history s = []" and "current_total_tokens s + cm_estimate_tokens c > max_tokens s"
  shows "add_message r c s = s"
  using assms by (simp add: add_message_def prune_context_if_needed_def prune_loop_stop Let_def)

text \<open>
  C2, as the code has it. For a manager constructed with \<open>max_tokens \<ge> 0\<close> and every
  sequence of \<open>add_message\<close> calls, \<open>get_current_token_count() \<le> max_tokens\<close> holds after
  every call. Whenever the store is empty and the new message's estimated cost alone exceeds
  \<open>max_tokens\<close>, the call leaves the manager as it was: nothing is stored, the count is 0,
  and the call returns.
\<close>

theorem add_message_within_budget:
  assumes "0 \<le> mt"
  shows "get_current_token_count (add_messages mt calls) \<le> mt
       \<and> (context_history (add_messages mt calls) = [] \<and> cm_estimate_tokens c > mt \<longrightarrow>
            add_message r c (add_messages mt calls) = add_messages mt calls
          \<and> context_history (add_message r c (add_messages mt calls)) = []
          \<and> get_current_token_count (add_message r c (add_messages mt calls)) = 0)"
proof (intro conjI impI)
  show "get_current_token_count (add_messages mt calls) \<le> mt"
    using add_messages_inv[of mt calls] assms by (simp add: get_current_token_count_def)
next
  assume a: "context_history (add_messages mt calls) = [] \<and> cm_estimate_tokens c > mt"
  from add_messages_inv[of mt calls] a
  have z: "current_total_tokens (add_messages mt calls) = 0" and m: "max_tokens (add_messages mt calls) = mt"
    by simp_all
  have "add_message r c (add_messages mt calls) = add_messages mt calls"
    using a z m by (intro add_message_reject) simp_all
  then show "add_message r c (add_messages mt calls) = add_messages mt calls"
    and "context_history (add_message r c (add_messages mt calls)) = []"
    and "get_current_token_count (add_message r c (add_messages mt calls)) = 0"
    using a z by (simp_all add: get_current_token_count_def)
qed

lemma add_oversized_to_fresh:
  "add_messages 10 [(''user'', oversized_content)] = context_manager_init 10"
  by (simp add: add_messages_def add_message_def prune_context_if_needed_def prune_loop.simps
        context_manager_init_def cm_estimate_tokens_def oversized_content_def Let_def)

theorem add_message_within_budget_witness:
  "(0::int) \<le> 10
   \<and> context_history (add_messages 10 [(''user'', oversized_content)]) = []
   \<and> cm_estimate_tokens oversized_content > 10
   \<and> get_current_token_count (add_messages 10 [(''user'', oversized_content)]) \<le> 10
   \<and> add_message ''user'' oversized_content (add_messages 10 [(''user'', oversized_content)])
       = add_messages 10 [(''user'', oversized_content)]
   \<and> get_current_token_count
        (add_message ''user'' oversized_content (add_messages 10 [(''user'', oversized_content)])) = 0"
proof -
  have h: "(0::int) \<le> 10" by simp
  have e: "context_history (add_messages 10 [(''user'', oversized_content)]) = []"
    by (simp add: add_oversized_to_fresh context_manager_init_def)
  have c: "cm_estimate_tokens oversized_content > 10"
    by (simp add: cm_estimate_tokens_def oversized_content_def)
  from add_message_within_budget[OF h, of "[(''user'', oversized_content)]" oversized_content "''user''"] e c h
  show ?thesis by blast
qed

text \<open>
  C2 as stated fails for a negative ceiling: a manager constructed with \<open>max_tokens = -1\<close>
  rejects the message \<open>hi\<close> and keeps the count 0, which is above \<open>-1\<close>.
\<close>

theorem negative_ceiling_exceeded:
  "\<not> get_current_token_count (add_messages (- 1) [(''user'', ''hi'')]) \<le> - 1"
  by (simp add: add_messages_def add_message_def prune_context_if_needed_def prune_loop.simps
        context_manager_init_def cm_estimate_tokens_def get_current_token_count_def Let_def)

subsection \<open>The condenser\<close>

lemma length_py_slice_to: "length (py_slice_to s n) \<le> length s"
  unfolding py_slice_to_def by (cases "n < 0") (simp_all only: if_True if_False length_take min.cobounded1)

lemma length_py_slice_to_bound: "0 \<le> n \<Longrightarrow> int (length (py_slice_to s n)) \<le> n"
  by (simp add: py_slice_to_def)

lemma py_slice_to_zero: "py_slice_to s 0 = []"
  by (simp add: py_slice_to_def)

lemma length_strip: "length (strip s) \<le> length s"
proof -
  have "length (dropWhile isspace (rev (dropWhile isspace s))) \<le> length (rev (dropWhile isspace s))"
    by (rule length_dropWhile_le)
  then have "length (strip s) \<le> length (dropWhile isspace s)"
    unfolding strip_def by (simp only: length_rev)
  also have "\<dots> \<le> length s" by (rule length_dropWhile_le)
  finally show ?thesis .
qed

lemma strip_Nil: "strip [] = []"
  by (simp add: strip_def)

lemma int_times_3_5_zero: "int_times_3_5 0 = 0"
  by (simp add: int_times_3_5_def)

text \<open>
  C3, as the code has it. For \<open>target_token_count = 0\<close> and every non-empty source whose
  flat text estimates above 0, \<open>condense_information\<close> returns the empty string; it returns
  a string for every input, raising nothing.
\<close>

theorem condense_to_zero_tokens:
  assumes "0 < cmc_estimate_tokens tf (raw_text_representation data)"
  shows "condense_information llm tf information_type data 0 relevance_query strategy = []"
  using assms
  by (simp add: condense_information_def Let_def py_slice_to_zero int_times_3_5_zero strip_Nil)

theorem condense_to_zero_tokens_witness:
  "0 < cmc_estimate_tokens None (raw_text_representation (Text ''abcdefgh''))
   \<and> condense_information False None ''document_text'' (Text ''abcdefgh'') 0 None
        ''truncate_or_summarize_placeholder'' = []"
proof -
  have h: "0 < cmc_estimate_tokens None (raw_text_representation (Text ''abcdefgh''))"
    by (simp add: cmc_estimate_tokens_def raw_text_representation_def)
  from condense_to_zero_tokens[OF h] h show ?thesis by simp
qed

text \<open>
  C3 as stated fails: with no tokenizer the string \<open>abc\<close> estimates to 0 tokens, which is
  within the target 0, so it is returned as it is.
\<close>

theorem condense_zero_target_keeps_short_text:
  "condense_information False None ''document_text'' (Text ''abc'') 0 None
     ''truncate_or_summarize_placeholder'' \<noteq> []"
  by (simp add: condense_information_def cmc_estimate_tokens_def raw_text_representation_def)

text \<open>A negative target makes both slices count from the end: twelve characters lose
  three, then three more.\<close>

lemma condense_negative_target:
  "condense_information False None ''document_text'' (Text ''abcdefghijkl'') (- 1) None
     ''truncate_or_summarize_placeholder'' = ''abcdef''"
  by (simp add: condense_information_def cmc_estimate_tokens_def raw_text_representation_def
        int_times_3_5_def exceeds_1_2_def py_slice_to_def strip_def isspace_def Let_def)

text \<open>
  C4, as the code has it. For every source that is non-empty, or whose flat text is empty,
  and whose flat text estimates to at most \<open>target_token_count\<close>, \<open>condense_information\<close>
  returns that flat text unchanged, whitespace included; called again on its own result it
  returns it unchanged.
\<close>

theorem condense_short_input_unchanged:
  assumes "truthy data \<or> raw_text_representation data = []"
      and "cmc_estimate_tokens tf (raw_text_representation data) \<le> target"
  shows "condense_information llm tf information_type data target relevance_query strategy
           = raw_text_representation data
       \<and> condense_information llm tf information_type
           (Text (condense_information llm tf information_type data target relevance_query strategy))
           target relevance_query strategy
           = condense_information llm tf information_type data target relevance_query strategy"
proof -
  have first: "condense_information llm tf information_type data target relevance_query strategy
                = raw_text_representation data"
  proof (cases "truthy data")
    case True
    with assms(2) show ?thesis by (simp add: condense_information_def Let_def)
  next
    case False
    with assms(1) show ?thesis by (simp add: condense_information_def)
  qed
  have second: "condense_information llm tf information_type (Text (raw_text_representation data))
                  target relevance_query strategy = raw_text_representation data"
    using assms(2) by (simp add: condense_information_def raw_text_representation_def Let_def)
  from first second show ?thesis by simp
qed

theorem condense_short_input_unchanged_witness:
  "truthy (Text '' abc '')
   \<and> cmc_estimate_tokens None (raw_text_representation (Text '' abc '')) \<le> 50
   \<and> condense_information False None ''document_text'' (Text '' abc '') 50 None
        ''truncate_or_summarize_placeholder'' = '' abc ''"
proof -
  have t: "truthy (Text '' abc '') \<or> raw_text_representation (Text '' abc '') = []" by simp
  have e: "cmc_estimate_tokens None (raw_text_representation (Text '' abc '')) \<le> 50"
    by (simp add: cmc_estimate_tokens_def raw_text_representation_def)
  from condense_short_input_unchanged[OF t e, of False "''document_text''" None
         "''truncate_or_summarize_placeholder''"] e
  show ?thesis by (simp add: raw_text_representation_def)
qed

text \<open>
  C4 as stated fails: the short input \<open>" abc "\<close> comes back with its blanks, not stripped.
\<close>

theorem condense_short_input_not_stripped:
  "condense_information False None ''document_text'' (Text '' abc '') 50 None
     ''truncate_or_summarize_placeholder'' \<noteq> strip (raw_text_representation (Text '' abc ''))"
  by (simp add: condense_information_def cmc_estimate_tokens_def raw_text_representation_def
        strip_def isspace_def)

lemma int_times_3_5_ge: "0 \<le> t \<Longrightarrow> 3 * t \<le> int_times_3_5 t"
  by (simp add: int_times_3_5_def)

text \<open>
  C9, as the code has it. For every non-empty source whose flat text estimates above
  \<open>target_token_count\<close>, and every \<open>target_token_count \<ge> 0\<close>, the returned string has at
  most \<open>int(target_token_count * 3.5)\<close> characters. With the fallback estimator (no tokenizer
  injected) its estimated token count is at most \<open>target_token_count\<close>.
\<close>

theorem condense_length_bound:
  assumes "truthy data" and "0 \<le> target"
      and "target < cmc_estimate_tokens tf (raw_text_representation data)"
  shows "int (length (condense_information llm tf information_type data target relevance_query strategy))
           \<le> int_times_3_5 target
       \<and> (tf = None \<longrightarrow>
            cmc_estimate_tokens tf
              (condense_information llm tf information_type data target relevance_query strategy)
            \<le> target)"
proof -
  let ?raw = "raw_text_representation data"
  let ?n = "if strategy = ''truncate_or_summarize_placeholder''
              \<and> llm \<and> relevance_query \<noteq> None \<and> relevance_query \<noteq> Some []
            then 3 * target else int_times_3_5 target"
  let ?c1 = "py_slice_to ?raw ?n"
  let ?c2 = "if exceeds_1_2 (cmc_estimate_tokens tf ?c1) target then py_slice_to ?c1 (3 * target) else ?c1"
  have res: "condense_information llm tf information_type data target relevance_query strategy = strip ?c2"
    using assms(1,3) by (cases relevance_query) (auto simp: condense_information_def Let_def)
  have n0: "0 \<le> ?n" using assms(2) int_times_3_5_ge[OF assms(2)] by simp
  have nle: "?n \<le> int_times_3_5 target" using int_times_3_5_ge[OF assms(2)] by simp
  have "int (length ?c1) \<le> ?n" using n0 by (rule length_py_slice_to_bound)
  with nle have c1: "int (length ?c1) \<le> int_times_3_5 target" by linarith
  have "length ?c2 \<le> length ?c1" using length_py_slice_to[of ?c1 "3 * target"] by simp
  moreover have "length (strip ?c2) \<le> length ?c2" by (rule length_strip)
  ultimately have len: "int (length (strip ?c2)) \<le> int_times_3_5 target" using c1 by linarith
  have quarter: "int (length (strip ?c2)) div 4 \<le> target"
  proof -
    have "int_times_3_5 target \<le> 4 * target" using assms(2) by (simp add: int_times_3_5_def)
    with len have "int (length (strip ?c2)) \<le> 4 * target" by linarith
    then show ?thesis by linarith
  qed
  show ?thesis
  proof (intro conjI impI)
    show "int (length (condense_information llm tf information_type data target relevance_query strategy))
            \<le> int_times_3_5 target"
      unfolding res by (rule len)
  next
    assume "tf = None"
    then have "cmc_estimate_tokens tf (strip ?c2) = int (length (strip ?c2)) div 4"
      by (simp only: cmc_estimate_tokens_def option.case)
    with quarter show "cmc_estimate_tokens tf
              (condense_information llm tf information_type data target relevance_query strategy)
            \<le> target"
      unfolding res by linarith
  qed
qed

theorem condense_length_bound_witness:
  "truthy (Text ''abcdefghijklmnop'') \<and> (0::int) \<le> 2
   \<and> 2 < cmc_estimate_tokens None (raw_text_representation (Text ''abcdefghijklmnop''))
   \<and> int (length (condense_information False None ''document_text'' (Text ''abcdefghijklmnop'') 2 None
        ''truncate_or_summarize_placeholder'')) \<le> int_times_3_5 2
   \<and> cmc_estimate_tokens None (condense_information False None ''document_text''
        (Text ''abcdefghijklmnop'') 2 None ''truncate_or_summarize_placeholder'') \<le> 2"
proof -
  have t: "truthy (Text ''abcdefghijklmnop'')" by simp
  have z: "(0::int) \<le> 2" by simp
  have e: "2 < cmc_estimate_tokens None (raw_text_representation (Text ''abcdefghijklmnop''))"
    by (simp add: cmc_estimate_tokens_def raw_text_representation_def)
  from condense_length_bound[OF t z e, of False "''document_text''" None
         "''truncate_or_summarize_placeholder''"] t z e
  show ?thesis by blast
qed

text \<open>
  C9 as stated fails in its second half: with the word-counting tokenizer of the module's own
  example injected, eight one-letter words condensed to a target of 2 come back as three
  words, and 3 is not below \<open>2 * 1.2\<close>. The hard cut's result is never re-checked.
\<close>

theorem condense_estimate_above_tolerance:
  "\<not> real_of_int (cmc_estimate_tokens (Some simple_test_tokenizer)
         (condense_information False (Some simple_test_tokenizer) ''document_text''
            (Text ''a b c d e f g h'') 2 None ''truncate_or_summarize_placeholder''))
       < real_of_int 2 * 1.2"
proof -
  have "condense_information False (Some simple_test_tokenizer) ''document_text''
            (Text ''a b c d e f g h'') 2 None ''truncate_or_summarize_placeholder'' = ''a b c''"
    by (simp add: condense_information_def cmc_estimate_tokens_def raw_text_representation_def
        simple_test_tokenizer_def int_times_3_5_def exceeds_1_2_def py_slice_to_def strip_def
        isspace_def Let_def)
  then show ?thesis
    by (simp add: cmc_estimate_tokens_def simple_test_tokenizer_def isspace_def)
qed

subsection \<open>The prompt constructor\<close>

lemma finalize_prompt_fallback_bound:
  assumes "0 \<le> mt"
  shows "dpc_estimate_tokens None (finalize_prompt None mt elements) \<le> mt"
proof -
  let ?fp = "strip (join (NL @ NL) elements)"
  show ?thesis
  proof (cases "int (length ?fp) div 4 > mt")
    case False
    then show ?thesis by (simp add: finalize_prompt_def dpc_estimate_tokens_def Let_def)
  next
    case True
    with assms have long: "int (length ?fp) > mt * 3" by linarith
    have "int (length (py_slice_to ?fp (mt * 3))) \<le> mt * 3"
      using assms by (intro length_py_slice_to_bound) simp
    then have "int (length (py_slice_to ?fp (mt * 3))) div 4 \<le> mt" using assms by linarith
    with True long show ?thesis by (simp add: finalize_prompt_def dpc_estimate_tokens_def Let_def)
  qed
qed

text \<open>Without a tokenizer the final cut is made: for \<open>max_tokens \<ge> 0\<close> the returned prompt
  re-estimates to at most \<open>max_tokens\<close>.\<close>

lemma prompt_within_budget_without_tokenizer:
  assumes "0 \<le> mt"
      and "build_and_optimize_prompt None components mt priority_order = Inr prompt"
  shows "dpc_estimate_tokens None prompt \<le> mt"
proof -
  from assms(2) obtain elements where "prompt = finalize_prompt None mt elements"
    by (auto simp: build_and_optimize_prompt_def split: sum.splits)
  with finalize_prompt_fallback_bound[OF assms(1)] show ?thesis by simp
qed

lemma three_short_components:
  "build_and_optimize_prompt None three_short 1 (Some [''a'', ''b'', ''c'']) = Inr (''xy'' @ NL)"
  by (simp add: build_and_optimize_prompt_def process_key_def temp_prompt_str_def
        format_component_def dpc_estimate_tokens_def initial_pstate_def finalize_prompt_def
        three_short_def NL_def strip_def isspace_def py_slice_to_def Let_def)

text \<open>With a tokenizer injected the fallback cuts nothing: the joined and stripped prompt is
  returned whatever it re-estimates to.\<close>

lemma finalize_prompt_with_tokenizer:
  "finalize_prompt (Some f) mt elements = strip (join (NL @ NL) elements)"
  by (simp add: finalize_prompt_def Let_def)

text \<open>
  C1. The returned prompt should re-estimate to at most \<open>max_tokens\<close> also when a tokenizer
  is injected. The code misses this: with the word-counting tokenizer of the module's own
  example and a budget of 1, the system message \<open>a b c d\<close> is cut to its first three
  characters, \<open>a b\<close>; the re-estimate, 2 tokens, exceeds the budget, no final cut is made,
  and \<open>a b\<close> is returned.
\<close>

theorem prompt_over_budget_with_tokenizer:
  "build_and_optimize_prompt (Some simple_test_tokenizer)
     [''system_message'' \<mapsto> Text ''a b c d''] 1 None = Inr ''a b''
   \<and> \<not> dpc_estimate_tokens (Some simple_test_tokenizer) ''a b'' \<le> 1"
  by (simp add: build_and_optimize_prompt_def default_priority_order_def process_key_def
        temp_prompt_str_def format_component_def dpc_estimate_tokens_def initial_pstate_def
        finalize_prompt_def simple_test_tokenizer_def NL_def strip_def isspace_def
        py_slice_to_def Let_def)


lemma process_keys_break_append:
  "process_keys tf components mt pre st = Inr (Break st') \<Longrightarrow>
   process_keys tf components mt (pre @ rest) st = Inr (Break st')"
proof (induction pre arbitrary: st)
  case Nil
  then show ?case by simp
next
  case (Cons key pre)
  then show ?case by (auto split: sum.splits flow.splits)
qed






end
